theory Spec2Isabelle
  imports Complex_Main "HOL-Library.Word"
begin

section \<open>Values: instants and exact money\<close>

text \<open>
  An instant (Go's \<open>time.Time\<close>) is the number of nanoseconds since the zero instant, so the
  zero value of \<open>time.Time\<close> is \<open>0\<close>; \<open>t.Before(u)\<close> is \<open>t < u\<close> and \<open>t.After(u)\<close> is
  \<open>u < t\<close>. \<open>Money\<close> is \<open>*big.Rat\<close>: an exact rational of unbounded size. A Go \<open>int64\<close> is a
  \<open>64 word\<close> read through \<open>sint\<close>.
\<close>

type_synonym time = int
type_synonym int64 = "64 word"
type_synonym Money = rat

definition Before :: "time \<Rightarrow> time \<Rightarrow> bool" where
  "Before t u = (t < u)"

definition After :: "time \<Rightarrow> time \<Rightarrow> bool" where
  "After t u = (u < t)"

datatype Panic = DivisionByZero

text \<open>\<open>big.NewRat(a, b)\<close> panics on a zero denominator.\<close>

definition NewRat :: "int64 \<Rightarrow> int64 \<Rightarrow> Panic + rat" where
  "NewRat a b = (if b = 0 then Inl DivisionByZero else Inr (Fract (sint a) (sint b)))"

text \<open>money.go: \<open>NewMoney(amount) = big.NewRat(amount, 100)\<close>; the denominator is never zero.\<close>

definition NewMoney :: "int64 \<Rightarrow> Money" where
  "NewMoney amount = Fract (sint amount) 100"

definition NewMoneyFromFraction :: "int64 \<Rightarrow> int64 \<Rightarrow> Panic + Money" where
  "NewMoneyFromFraction numerator denominator = NewRat numerator denominator"

definition Add :: "Money \<Rightarrow> Money \<Rightarrow> Money" where
  "Add m other = m + other"

definition Subtract :: "Money \<Rightarrow> Money \<Rightarrow> Money" where
  "Subtract m other = m - other"

definition Multiply :: "Money \<Rightarrow> Money \<Rightarrow> Money" where
  "Multiply m other = m * other"

subsection \<open>The serialization boundary (transport mappers)\<close>

text \<open>
  \<open>Num\<close> and \<open>Denom\<close> read a \<open>big.Rat\<close> in lowest terms with a positive denominator.
  \<open>big.Int.IsInt64\<close> tests the signed 64-bit range; \<open>big.Int.Int64\<close> keeps the low 64 bits.
\<close>

definition Num :: "rat \<Rightarrow> int" where
  "Num r = fst (quotient_of r)"

definition Denom :: "rat \<Rightarrow> int" where
  "Denom r = snd (quotient_of r)"

definition IsInt64 :: "int \<Rightarrow> bool" where
  "IsInt64 n = (- (2 ^ 63) \<le> n \<and> n < 2 ^ 63)"

definition Int64 :: "int \<Rightarrow> int64" where
  "Int64 n = word_of_int n"

text \<open>
  \<open>BigRatToProtoMoney\<close>: scale to cents; when the scaled denominator is 1 take the numerator
  directly, otherwise go through \<open>Float64\<close> and \<open>int64(f + 0.5)\<close>. The floating-point
  branch is the parameter \<open>round_f64\<close>. A nil input gives nil.
\<close>

definition BigRatToProtoMoney :: "(rat \<Rightarrow> int64) \<Rightarrow> rat option \<Rightarrow> int64 option" where
  "BigRatToProtoMoney round_f64 rat =
     (case rat of
        None \<Rightarrow> None
      | Some r \<Rightarrow>
          (let cents = r * Fract 100 1
           in if IsInt64 (Denom cents) \<and> Int64 (Denom cents) = 1
              then Some (Int64 (Num cents))
              else Some (round_f64 cents)))"

definition DomainMoneyToProto :: "(rat \<Rightarrow> int64) \<Rightarrow> Money option \<Rightarrow> int64 option" where
  "DomainMoneyToProto round_f64 domainMoney =
     (case domainMoney of
        None \<Rightarrow> None
      | Some rat \<Rightarrow>
          (let cents = rat * Fract 100 1
           in if IsInt64 (Denom cents) \<and> Int64 (Denom cents) = 1
              then Some (Int64 (Num cents))
              else Some (round_f64 cents)))"

definition ProtoMoneyToDomain :: "int64 option \<Rightarrow> Money option" where
  "ProtoMoneyToDomain pbMoney =
     (case pbMoney of None \<Rightarrow> None | Some amount \<Rightarrow> Some (NewMoney amount))"

section \<open>Discount\<close>

record Discount =
  ID :: string
  Amount :: "Money option"
  StartDate :: time
  EndDate :: time

text \<open>discount.go, lines 12-14: \<open>now.After(d.StartDate) && now.Before(d.EndDate)\<close>.\<close>

definition IsValidAt :: "Discount \<Rightarrow> time \<Rightarrow> bool" where
  "IsValidAt d now = (After now (StartDate d) \<and> Before now (EndDate d))"

text \<open>
  The second copy of the Discount value object (the one that also has \<open>Validate\<close>):
  \<open>!now.Before(d.StartDate) && now.Before(d.EndDate)\<close>, commented "inclusive start,
  exclusive end".
\<close>

definition IsValidAt_inclusive :: "Discount \<Rightarrow> time \<Rightarrow> bool" where
  "IsValidAt_inclusive d now = (\<not> Before now (StartDate d) \<and> Before now (EndDate d))"

definition discount_jan :: Discount where
  "discount_jan = \<lparr>ID = ''discount-1'', Amount = Some (Fract 10 100), StartDate = 100, EndDate = 200\<rparr>"

section \<open>Domain errors and events\<close>

datatype DomainError =
    ErrProductNotActive
  | ErrInvalidDiscountPeriod
  | ErrProductNotFound
  | ErrProductAlreadyArchived
  | ErrDiscountAlreadyActive
  | ErrInvalidPrice
  | ErrProductHasActiveDiscount
  | ErrInvalidProductName
  | ErrInvalidProductDescription
  | ErrInvalidProductCategory
  | ErrInvalidDiscountID
  | ErrInvalidDiscountAmount
  | ErrInvalidDiscountDateRange

text \<open>
  The event structs of domain_events.go, one constructor each, fields in the source's order
  (\<open>ProductCreatedEvent\<close>: ProductID, Name, Category, BasePrice, CreatedAt; and so on).
\<close>

datatype DomainEvent =
    ProductCreatedEvent string string string "Money option" time
  | ProductUpdatedEvent string time "string list"
  | DiscountAppliedEvent string string time
  | ProductActivatedEvent string time
  | ProductDeactivatedEvent string time
  | ProductArchivedEvent string time
  | DiscountRemovedEvent string time

datatype EventValue = VString string | VTime time | VStrings "string list"

fun EventName :: "DomainEvent \<Rightarrow> string" where
  "EventName (ProductCreatedEvent pid n c bp t) = ''product_created''"
| "EventName (ProductUpdatedEvent pid t fs) = ''product_updated''"
| "EventName (DiscountAppliedEvent pid did t) = ''discount_applied''"
| "EventName (ProductActivatedEvent pid t) = ''product_activated''"
| "EventName (ProductDeactivatedEvent pid t) = ''product_deactivated''"
| "EventName (ProductArchivedEvent pid t) = ''product_archived''"
| "EventName (DiscountRemovedEvent pid t) = ''discount_removed''"

text \<open>\<open>EventData\<close> returns a \<open>map[string]interface{}\<close>; here an association list.\<close>

fun EventData :: "DomainEvent \<Rightarrow> (string \<times> EventValue) list" where
  "EventData (ProductCreatedEvent pid n c bp t) =
     [(''product_id'', VString pid), (''name'', VString n), (''category'', VString c),
      (''created_at'', VTime t)]"
| "EventData (ProductUpdatedEvent pid t fs) =
     [(''product_id'', VString pid), (''updated_at'', VTime t), (''changed_fields'', VStrings fs)]"
| "EventData (DiscountAppliedEvent pid did t) =
     [(''product_id'', VString pid), (''discount_id'', VString did), (''applied_at'', VTime t)]"
| "EventData (ProductActivatedEvent pid t) =
     [(''product_id'', VString pid), (''activated_at'', VTime t)]"
| "EventData (ProductDeactivatedEvent pid t) =
     [(''product_id'', VString pid), (''deactivated_at'', VTime t)]"
| "EventData (ProductArchivedEvent pid t) =
     [(''product_id'', VString pid), (''archived_at'', VTime t)]"
| "EventData (DiscountRemovedEvent pid t) =
     [(''product_id'', VString pid), (''removed_at'', VTime t)]"

section \<open>ChangeTracker\<close>

text \<open>A \<open>map[string]bool\<close> that may be nil (\<open>None\<close>).\<close>

record ChangeTracker =
  dirtyFields :: "(string \<rightharpoonup> bool) option"

definition MarkDirty :: "ChangeTracker \<Rightarrow> string \<Rightarrow> ChangeTracker" where
  "MarkDirty ct field =
     (case dirtyFields ct of
        None \<Rightarrow> ct\<lparr>dirtyFields := Some (Map.empty(field \<mapsto> True))\<rparr>
      | Some m \<Rightarrow> ct\<lparr>dirtyFields := Some (m(field \<mapsto> True))\<rparr>)"

definition Dirty :: "ChangeTracker \<Rightarrow> string \<Rightarrow> bool" where
  "Dirty ct field =
     (case dirtyFields ct of
        None \<Rightarrow> False
      | Some m \<Rightarrow> (case m field of None \<Rightarrow> False | Some b \<Rightarrow> b))"

section \<open>The Product aggregate\<close>

type_synonym ProductStatus = string

definition ProductStatusActive :: ProductStatus where
  "ProductStatusActive = ''active''"

definition ProductStatusInactive :: ProductStatus where
  "ProductStatusInactive = ''inactive''"

definition FieldDiscount :: string where "FieldDiscount = ''discount''"
definition FieldName :: string where "FieldName = ''name''"
definition FieldDescription :: string where "FieldDescription = ''description''"
definition FieldCategory :: string where "FieldCategory = ''category''"
definition FieldStatus :: string where "FieldStatus = ''status''"
definition FieldArchivedAt :: string where "FieldArchivedAt = ''archived_at''"

record Product =
  id_f :: string
  name :: string
  description :: string
  category :: string
  basePrice :: "Money option"
  discount :: "Discount option"
  status :: ProductStatus
  changes :: ChangeTracker
  events :: "DomainEvent list"
  archivedAt :: "time option"
  createdAt :: time
  updatedAt :: time

text \<open>
  \<open>NewProduct\<close> leaves \<open>status\<close>, \<open>discount\<close>, \<open>archivedAt\<close> and the two timestamps at their
  zero values: the empty string, nil, nil and the zero instant.
\<close>

definition NewProduct :: "string \<Rightarrow> string \<Rightarrow> string \<Rightarrow> string \<Rightarrow> Money option \<Rightarrow> Product" where
  "NewProduct i n d c bp =
     \<lparr>id_f = i, name = n, description = d, category = c, basePrice = bp, discount = None,
      status = [], changes = \<lparr>dirtyFields = Some Map.empty\<rparr>, events = [],
      archivedAt = None, createdAt = 0, updatedAt = 0\<rparr>"

definition ReconstructProduct ::
  "string \<Rightarrow> string \<Rightarrow> string \<Rightarrow> string \<Rightarrow> Money option \<Rightarrow> Discount option \<Rightarrow> ProductStatus
     \<Rightarrow> time option \<Rightarrow> time \<Rightarrow> time \<Rightarrow> Product" where
  "ReconstructProduct i n d c bp disc st arch cr up =
     \<lparr>id_f = i, name = n, description = d, category = c, basePrice = bp, discount = disc,
      status = st, changes = \<lparr>dirtyFields = Some Map.empty\<rparr>, events = [],
      archivedAt = arch, createdAt = cr, updatedAt = up\<rparr>"

text \<open>
  Every method mutates its receiver and returns an error: the model returns the error
  (\<open>None\<close> is nil) and the receiver after the call. Reads of \<open>time.Now()\<close> are arguments.
\<close>

definition ApplyDiscount :: "Product \<Rightarrow> Discount \<Rightarrow> time \<Rightarrow> DomainError option \<times> Product" where
  "ApplyDiscount p d now =
     (if status p \<noteq> ProductStatusActive then (Some ErrProductNotActive, p)
      else if \<not> IsValidAt d now then (Some ErrInvalidDiscountPeriod, p)
      else if (case discount p of None \<Rightarrow> False | Some cur \<Rightarrow> IsValidAt cur now)
        then (Some ErrDiscountAlreadyActive, p)
      else (None,
            p\<lparr>discount := Some d,
              changes := MarkDirty (changes p) FieldDiscount,
              events := events p @ [DiscountAppliedEvent (id_f p) (ID d) now]\<rparr>))"

definition UpdateDetails :: "Product \<Rightarrow> string \<Rightarrow> string \<Rightarrow> string \<Rightarrow> DomainError option \<times> Product" where
  "UpdateDetails p n d c =
     (if archivedAt p \<noteq> None then (Some ErrProductAlreadyArchived, p)
      else
        (let p1 = (if n \<noteq> name p
                   then p\<lparr>name := n, changes := MarkDirty (changes p) FieldName\<rparr> else p);
             p2 = (if d \<noteq> description p1
                   then p1\<lparr>description := d, changes := MarkDirty (changes p1) FieldDescription\<rparr>
                   else p1);
             p3 = (if c \<noteq> category p2
                   then p2\<lparr>category := c, changes := MarkDirty (changes p2) FieldCategory\<rparr>
                   else p2)
         in (None, p3)))"

text \<open>\<open>Activate\<close>: \<open>tev\<close> is the instant stamped on the event.\<close>

definition Activate :: "Product \<Rightarrow> time \<Rightarrow> DomainError option \<times> Product" where
  "Activate p tev =
     (if archivedAt p \<noteq> None then (Some ErrProductAlreadyArchived, p)
      else if status p = ProductStatusActive then (None, p)
      else (None,
            p\<lparr>status := ProductStatusActive,
              changes := MarkDirty (changes p) FieldStatus,
              events := events p @ [ProductActivatedEvent (id_f p) tev]\<rparr>))"

text \<open>
  \<open>Deactivate\<close> reads the clock twice: \<open>now\<close> for the validity check of an attached
  discount, \<open>tev\<close> for the event.
\<close>

definition Deactivate :: "Product \<Rightarrow> time \<Rightarrow> time \<Rightarrow> DomainError option \<times> Product" where
  "Deactivate p now tev =
     (if archivedAt p \<noteq> None then (Some ErrProductAlreadyArchived, p)
      else if (case discount p of None \<Rightarrow> False | Some cur \<Rightarrow> IsValidAt cur now)
        then (Some ErrProductHasActiveDiscount, p)
      else if status p = ProductStatusInactive then (None, p)
      else (None,
            p\<lparr>status := ProductStatusInactive,
              changes := MarkDirty (changes p) FieldStatus,
              events := events p @ [ProductDeactivatedEvent (id_f p) tev]\<rparr>))"

definition Archive :: "Product \<Rightarrow> time \<Rightarrow> DomainError option \<times> Product" where
  "Archive p now =
     (if archivedAt p \<noteq> None then (Some ErrProductAlreadyArchived, p)
      else (None,
            p\<lparr>archivedAt := Some now,
              changes := MarkDirty (changes p) FieldArchivedAt,
              events := events p @ [ProductArchivedEvent (id_f p) now]\<rparr>))"

definition RemoveDiscount :: "Product \<Rightarrow> time \<Rightarrow> DomainError option \<times> Product" where
  "RemoveDiscount p tev =
     (if discount p = None then (None, p)
      else (None,
            p\<lparr>discount := None,
              changes := MarkDirty (changes p) FieldDiscount,
              events := events p @ [DiscountRemovedEvent (id_f p) tev]\<rparr>))"

section \<open>PricingCalculator\<close>

definition CalculateEffectivePrice :: "Product \<Rightarrow> time \<Rightarrow> Money option" where
  "CalculateEffectivePrice product now =
     (case basePrice product of
        None \<Rightarrow> None
      | Some basePriceValue \<Rightarrow>
          (case discount product of
             None \<Rightarrow> Some basePriceValue
           | Some d \<Rightarrow>
               (case Amount d of
                  None \<Rightarrow> Some basePriceValue
                | Some discountPercentage \<Rightarrow>
                    if \<not> IsValidAt d now then Some basePriceValue
                    else
                      (let one = NewMoney 100;
                           multiplier = Subtract one discountPercentage
                       in Some (Multiply basePriceValue multiplier)))))"

section \<open>Persistence model and reconstruction on load\<close>

text \<open>The row struct \<open>m_product.Product\<close>; nullable columns are options.\<close>

record m_Product =
  m_ProductID :: string
  m_Name :: string
  m_Description :: string
  m_Category :: string
  m_BasePriceNumerator :: int64
  m_BasePriceDenominator :: int64
  m_DiscountID :: "string option"
  m_DiscountAmount :: "rat option"
  m_DiscountStartDate :: "time option"
  m_DiscountEndDate :: "time option"
  m_Status :: string
  m_ArchivedAt :: "time option"
  m_CreatedAt :: time
  m_UpdatedAt :: time

text \<open>
  \<open>SpannerProductRepository.modelToDomain\<close>. Its error result is always nil; the only
  other way out would be the panic of \<open>big.NewRat\<close>, kept as \<open>Inl\<close>.
\<close>

definition modelToDomain :: "m_Product \<Rightarrow> Panic + Product" where
  "modelToDomain model =
     (case (if m_BasePriceDenominator model \<noteq> 0
            then (case NewMoneyFromFraction (m_BasePriceNumerator model) (m_BasePriceDenominator model) of
                    Inl pn \<Rightarrow> Inl pn
                  | Inr price \<Rightarrow> Inr (Some price))
            else Inr None) of
        Inl pn \<Rightarrow> Inl pn
      | Inr bp \<Rightarrow>
          (let disc =
                 (case (m_DiscountID model, m_DiscountStartDate model, m_DiscountEndDate model) of
                    (Some did, Some sd, Some ed) \<Rightarrow>
                      Some \<lparr>ID = did, Amount = m_DiscountAmount model, StartDate = sd, EndDate = ed\<rparr>
                  | _ \<Rightarrow> None);
               st = (if m_Status model \<noteq> ProductStatusActive \<and> m_Status model \<noteq> ProductStatusInactive
                     then ProductStatusInactive else m_Status model)
           in Inr (ReconstructProduct (m_ProductID model) (m_Name model) (m_Description model)
                     (m_Category model) bp disc st (m_ArchivedAt model) (m_CreatedAt model)
                     (m_UpdatedAt model))))"

text \<open>\<open>SpannerProductRepository.domainToModel\<close>.\<close>

definition domainToModel :: "Product \<Rightarrow> m_Product" where
  "domainToModel product =
     \<lparr>m_ProductID = id_f product, m_Name = name product, m_Description = description product,
      m_Category = category product,
      m_BasePriceNumerator = (case basePrice product of Some rat \<Rightarrow> Int64 (Num rat) | None \<Rightarrow> 0),
      m_BasePriceDenominator = (case basePrice product of Some rat \<Rightarrow> Int64 (Denom rat) | None \<Rightarrow> 1),
      m_DiscountID = (case discount product of Some d \<Rightarrow> Some (ID d) | None \<Rightarrow> None),
      m_DiscountAmount = (case discount product of Some d \<Rightarrow> Amount d | None \<Rightarrow> None),
      m_DiscountStartDate = (case discount product of Some d \<Rightarrow> Some (StartDate d) | None \<Rightarrow> None),
      m_DiscountEndDate = (case discount product of Some d \<Rightarrow> Some (EndDate d) | None \<Rightarrow> None),
      m_Status = status product, m_ArchivedAt = archivedAt product,
      m_CreatedAt = createdAt product, m_UpdatedAt = updatedAt product\<rparr>"

subsection \<open>The read-side queries\<close>

datatype Error = Domain DomainError | Other string | Wrap string Error

text \<open>\<open>get_product.DTO\<close>.\<close>

record DTO =
  dto_ID :: string
  dto_Name :: string
  dto_Description :: string
  dto_Category :: string
  dto_BasePrice :: "rat option"
  dto_EffectivePrice :: "rat option"
  dto_DiscountID :: "string option"
  dto_DiscountAmount :: "rat option"
  dto_DiscountStartDate :: "time option"
  dto_DiscountEndDate :: "time option"
  dto_Status :: string
  dto_ArchivedAt :: "time option"
  dto_CreatedAt :: time
  dto_UpdatedAt :: time

text \<open>The product that \<open>get_product.Query.Execute\<close> reconstructs from the row before pricing it.\<close>

definition get_product_reconstruct :: "DTO \<Rightarrow> Product" where
  "get_product_reconstruct dto =
     (let disc =
            (case (dto_DiscountID dto, dto_DiscountStartDate dto, dto_DiscountEndDate dto) of
               (Some did, Some sd, Some ed) \<Rightarrow>
                 Some \<lparr>ID = did, Amount = dto_DiscountAmount dto, StartDate = sd, EndDate = ed\<rparr>
             | _ \<Rightarrow> None);
          st = (if dto_Status dto \<noteq> ProductStatusActive \<and> dto_Status dto \<noteq> ProductStatusInactive
                then ProductStatusInactive else dto_Status dto)
      in ReconstructProduct (dto_ID dto) (dto_Name dto) (dto_Description dto) (dto_Category dto)
           (dto_BasePrice dto) disc st (dto_ArchivedAt dto) (dto_CreatedAt dto) (dto_UpdatedAt dto))"

text \<open>
  \<open>get_product.Query.Execute\<close>: the read model's answer \<open>r\<close> and the clock's \<open>now\<close> are
  arguments. The effective price is the calculator's result, else the base price; the
  response copies every other field of the row, the raw \<open>Status\<close> string included.
\<close>

definition get_product_Execute :: "Error + DTO \<Rightarrow> time \<Rightarrow> Error + DTO" where
  "get_product_Execute r now =
     (case r of
        Inl err \<Rightarrow> Inl (Wrap ''failed to get product'' err)
      | Inr dto \<Rightarrow>
          Inr (dto\<lparr>dto_EffectivePrice :=
                      (case CalculateEffectivePrice (get_product_reconstruct dto) now of
                         Some effectivePrice \<Rightarrow> Some effectivePrice
                       | None \<Rightarrow> dto_BasePrice dto)\<rparr>))"

text \<open>\<open>list_products.ProductItem\<close>.\<close>

record ProductItem =
  item_ID :: string
  item_Name :: string
  item_Description :: string
  item_Category :: string
  item_BasePrice :: "rat option"
  item_EffectivePrice :: "rat option"
  item_DiscountID :: "string option"
  item_DiscountAmount :: "rat option"
  item_DiscountStartDate :: "time option"
  item_DiscountEndDate :: "time option"
  item_Status :: string
  item_ArchivedAt :: "time option"
  item_CreatedAt :: time
  item_UpdatedAt :: time

text \<open>The product that the loop of \<open>list_products.Query.Execute\<close> reconstructs for one item.\<close>

definition list_products_reconstruct :: "ProductItem \<Rightarrow> Product" where
  "list_products_reconstruct item =
     (let disc =
            (case (item_DiscountID item, item_DiscountStartDate item, item_DiscountEndDate item) of
               (Some did, Some sd, Some ed) \<Rightarrow>
                 Some \<lparr>ID = did, Amount = item_DiscountAmount item, StartDate = sd, EndDate = ed\<rparr>
             | _ \<Rightarrow> None);
          st = (if item_Status item \<noteq> ProductStatusActive \<and> item_Status item \<noteq> ProductStatusInactive
                then ProductStatusInactive else item_Status item)
      in ReconstructProduct (item_ID item) (item_Name item) (item_Description item)
           (item_Category item) (item_BasePrice item) disc st (item_ArchivedAt item)
           (item_CreatedAt item) (item_UpdatedAt item))"

text \<open>
  The loop body rewrites \<open>EffectivePrice\<close> of the item in place; an item whose calculator
  result and base price are both nil keeps what it had.
\<close>

definition list_products_item :: "time \<Rightarrow> ProductItem \<Rightarrow> ProductItem" where
  "list_products_item now item =
     (case CalculateEffectivePrice (list_products_reconstruct item) now of
        Some effectivePrice \<Rightarrow> item\<lparr>item_EffectivePrice := Some effectivePrice\<rparr>
      | None \<Rightarrow>
          (if item_BasePrice item \<noteq> None
           then item\<lparr>item_EffectivePrice := item_BasePrice item\<rparr> else item))"

definition list_products_Execute ::
  "Error + ProductItem list \<times> int \<Rightarrow> time \<Rightarrow> Error + ProductItem list \<times> int" where
  "list_products_Execute r now =
     (case r of
        Inl err \<Rightarrow> Inl (Wrap ''failed to list products'' err)
      | Inr (items, n) \<Rightarrow> Inr (map (list_products_item now) items, n))"

section \<open>Commit plan and atomic writer\<close>

record OutboxEvent =
  o_EventID :: string
  o_EventType :: string
  o_AggregateID :: string
  o_Payload :: string
  o_Status :: string
  o_CreatedAt :: time
  o_ProcessedAt :: "time option"

text \<open>
  A \<open>*spanner.Mutation\<close>, as far as this code builds one: an insert of a product row, an
  update of the listed columns of a product row, an insert of an outbox row.
\<close>

datatype Mutation =
    ProductInsert m_Product
  | ProductUpdate "string list" m_Product
  | OutboxInsert OutboxEvent

record Plan =
  mutations :: "Mutation list"

definition NewPlan :: Plan where
  "NewPlan = \<lparr>mutations = []\<rparr>"

text \<open>\<open>Plan.Add\<close> ignores a nil mutation.\<close>

definition Add_plan :: "Plan \<Rightarrow> Mutation option \<Rightarrow> Plan" where
  "Add_plan p mut = (case mut of None \<Rightarrow> p | Some m \<Rightarrow> p\<lparr>mutations := mutations p @ [m]\<rparr>)"

definition Mutations :: "Plan \<Rightarrow> Mutation list" where
  "Mutations p = mutations p"

text \<open>
  \<open>SpannerCommitter.Apply\<close>. The database \<open>'db\<close> and the client's \<open>Apply\<close> are the
  collaborator: \<open>client muts db\<close> returns the error (nil is \<open>None\<close>) and the database
  afterwards. A nil plan is \<open>None\<close>.
\<close>

definition SpannerCommitter_Apply ::
  "(Mutation list \<Rightarrow> 'db \<Rightarrow> Error option \<times> 'db) \<Rightarrow> Plan option \<Rightarrow> 'db \<Rightarrow> Error option \<times> 'db" where
  "SpannerCommitter_Apply client plan db =
     (case plan of
        None \<Rightarrow> (None, db)
      | Some p \<Rightarrow> if length (Mutations p) = 0 then (None, db) else client (Mutations p) db)"

text \<open>\<open>SpannerProductRepository.UpdateMut\<close>: the columns follow the dirty fields.\<close>

definition SpannerProductRepository_UpdateMut :: "Product \<Rightarrow> Mutation option" where
  "SpannerProductRepository_UpdateMut product =
     (let model = domainToModel product;
          chg = changes product;
          columns = [''product_id'']
            @ (if Dirty chg FieldName then [''name''] else [])
            @ (if Dirty chg FieldDescription then [''description''] else [])
            @ (if Dirty chg FieldCategory then [''category''] else [])
            @ (if Dirty chg ''base_price'' then [''base_price_numerator'', ''base_price_denominator''] else [])
            @ (if Dirty chg FieldDiscount
               then [''discount_id'', ''discount_amount'', ''discount_start_date'', ''discount_end_date'']
               else [])
            @ (if Dirty chg FieldStatus then [''status''] else [])
            @ (if Dirty chg FieldArchivedAt then [''archived_at''] else [])
            @ [''updated_at'']
      in Some (ProductUpdate columns model))"

section \<open>Use-case interactors\<close>

text \<open>
  What an interactor holds and calls: the repository and committer interfaces, the clock,
  and the two library calls \<open>json.Marshal\<close> (it can fail) and \<open>uuid.New\<close> (the k-th
  identifier drawn during one execution). The clock is read once per execution.
\<close>

record 'db Deps =
  repo_Load :: "string \<Rightarrow> 'db \<Rightarrow> Error + Product"
  repo_UpdateMut :: "Product \<Rightarrow> Mutation option"
  committer_Apply :: "Plan \<Rightarrow> 'db \<Rightarrow> Error option \<times> 'db"
  clock_Now :: time
  json_Marshal :: "(string \<times> EventValue) list \<Rightarrow> Error + string"
  uuid_New :: "nat \<Rightarrow> string"

definition aggregateID_of :: "DomainEvent \<Rightarrow> string" where
  "aggregateID_of event =
     (case map_of (EventData event) ''product_id'' of Some (VString pid) \<Rightarrow> pid | _ \<Rightarrow> [])"

definition outbox_record :: "'db Deps \<Rightarrow> DomainEvent \<Rightarrow> string \<Rightarrow> time \<Rightarrow> nat \<Rightarrow> OutboxEvent" where
  "outbox_record deps event eventData now k =
     \<lparr>o_EventID = uuid_New deps k, o_EventType = EventName event,
      o_AggregateID = aggregateID_of event, o_Payload = eventData, o_Status = ''pending'',
      o_CreatedAt = now, o_ProcessedAt = None\<rparr>"

subsection \<open>activate_product\<close>

text \<open>\<open>eventToOutboxMutation\<close> of activate_product: a marshalling error is returned.\<close>

definition activate_eventToOutboxMutation ::
  "'db Deps \<Rightarrow> DomainEvent \<Rightarrow> time \<Rightarrow> nat \<Rightarrow> Error + Mutation option" where
  "activate_eventToOutboxMutation deps event now k =
     (case json_Marshal deps (EventData event) of
        Inl err \<Rightarrow> Inl (Wrap (''failed to marshal event data for event '' @ EventName event) err)
      | Inr eventData \<Rightarrow> Inr (Some (OutboxInsert (outbox_record deps event eventData now k))))"

text \<open>The loop over the pending events: the first error ends the execution.\<close>

fun activate_collect :: "'db Deps \<Rightarrow> time \<Rightarrow> nat \<Rightarrow> DomainEvent list \<Rightarrow> Plan \<Rightarrow> Error + Plan" where
  "activate_collect deps now k [] plan = Inr plan"
| "activate_collect deps now k (event # rest) plan =
     (case activate_eventToOutboxMutation deps event now k of
        Inl err \<Rightarrow> Inl (Wrap ''failed to create outbox event'' err)
      | Inr outboxMut \<Rightarrow> activate_collect deps now (Suc k) rest (Add_plan plan outboxMut))"

text \<open>
  \<open>Execute\<close>: the result is the response's product id or the error, and the database
  after the call.
\<close>

definition activate_product_Execute :: "'db Deps \<Rightarrow> string \<Rightarrow> 'db \<Rightarrow> (Error + string) \<times> 'db" where
  "activate_product_Execute deps productID db =
     (case repo_Load deps productID db of
        Inl err \<Rightarrow> (Inl (Wrap ''failed to load product'' err), db)
      | Inr product \<Rightarrow>
          (let now = clock_Now deps
           in case Activate product now of
                (Some err, _) \<Rightarrow> (Inl (Wrap ''failed to activate product'' (Domain err)), db)
              | (None, product') \<Rightarrow>
                  (case activate_collect deps now 0 (events product')
                          (Add_plan NewPlan (repo_UpdateMut deps product')) of
                     Inl err \<Rightarrow> (Inl err, db)
                   | Inr plan \<Rightarrow>
                       if length (Mutations plan) > 0
                       then (case committer_Apply deps plan db of
                               (Some err, db') \<Rightarrow> (Inl (Wrap ''failed to activate product'' err), db')
                             | (None, db') \<Rightarrow> (Inr productID, db'))
                       else (Inr productID, db))))"

subsection \<open>update_product\<close>

text \<open>
  \<open>eventToOutboxMutation\<close> of update_product: on a marshalling error it returns nil, and
  has no error result.
\<close>

definition update_eventToOutboxMutation ::
  "'db Deps \<Rightarrow> DomainEvent \<Rightarrow> time \<Rightarrow> nat \<Rightarrow> Mutation option" where
  "update_eventToOutboxMutation deps event now k =
     (case json_Marshal deps (EventData event) of
        Inl err \<Rightarrow> None
      | Inr eventData \<Rightarrow> Some (OutboxInsert (outbox_record deps event eventData now k)))"

fun update_collect :: "'db Deps \<Rightarrow> time \<Rightarrow> nat \<Rightarrow> DomainEvent list \<Rightarrow> Plan \<Rightarrow> Plan" where
  "update_collect deps now k [] plan = plan"
| "update_collect deps now k (event # rest) plan =
     update_collect deps now (Suc k) rest (Add_plan plan (update_eventToOutboxMutation deps event now k))"

record Request =
  req_ProductID :: string
  req_Name :: "string option"
  req_Description :: "string option"
  req_Category :: "string option"

text \<open>
  \<open>Execute\<close> calls \<open>product.UpdateDetails(name, description, category, now)\<close>; the domain
  method with that signature is the argument \<open>updateDetails\<close>.
\<close>

definition update_product_Execute ::
  "'db Deps \<Rightarrow> (Product \<Rightarrow> string \<Rightarrow> string \<Rightarrow> string \<Rightarrow> time \<Rightarrow> DomainError option \<times> Product)
     \<Rightarrow> Request \<Rightarrow> 'db \<Rightarrow> (Error + string) \<times> 'db" where
  "update_product_Execute deps updateDetails req db =
     (case repo_Load deps (req_ProductID req) db of
        Inl err \<Rightarrow> (Inl (Wrap ''failed to load product'' err), db)
      | Inr product \<Rightarrow>
          (let now = clock_Now deps;
               n = (case req_Name req of Some v \<Rightarrow> v | None \<Rightarrow> name product);
               d = (case req_Description req of Some v \<Rightarrow> v | None \<Rightarrow> description product);
               c = (case req_Category req of Some v \<Rightarrow> v | None \<Rightarrow> category product)
           in case updateDetails product n d c now of
                (Some err, _) \<Rightarrow> (Inl (Wrap ''failed to update product details'' (Domain err)), db)
              | (None, product') \<Rightarrow>
                  (let plan = update_collect deps now 0 (events product')
                                (Add_plan NewPlan (repo_UpdateMut deps product'))
                   in if length (Mutations plan) > 0
                      then (case committer_Apply deps plan db of
                              (Some err, db') \<Rightarrow> (Inl (Wrap ''failed to update product'' err), db')
                            | (None, db') \<Rightarrow> (Inr (req_ProductID req), db'))
                      else (Inr (req_ProductID req), db))))"

text \<open>
  Modelled from the spec: the four-argument \<open>UpdateDetails\<close> that update_product calls is
  not among the sources (the aggregate there has the three-argument one, which records no
  event). Following "appends exactly one domain event per externally-visible transition
  (idempotent no-ops append none)" and the ProductUpdated variant of the event union, it is
  the three-argument method followed, when a field changed, by one ProductUpdated event at
  \<open>now\<close> that lists the changed fields.
\<close>

definition UpdateDetails_at ::
  "Product \<Rightarrow> string \<Rightarrow> string \<Rightarrow> string \<Rightarrow> time \<Rightarrow> DomainError option \<times> Product" where
  "UpdateDetails_at p n d c now =
     (case UpdateDetails p n d c of
        (Some err, p') \<Rightarrow> (Some err, p')
      | (None, p') \<Rightarrow>
          (let changed = (if n \<noteq> name p then [FieldName] else [])
                 @ (if d \<noteq> description p then [FieldDescription] else [])
                 @ (if c \<noteq> category p then [FieldCategory] else [])
           in if changed = [] then (None, p')
              else (None, p'\<lparr>events := events p' @ [ProductUpdatedEvent (id_f p') now changed]\<rparr>)))"

section \<open>Concrete inputs\<close>

definition product_new :: Product where
  "product_new = NewProduct ''product-1'' ''Test'' ''Desc'' ''Cat'' (Some (NewMoney 10000))"

text \<open>Created, activated at 110, archived at 120: status is still "active".\<close>

definition product_archived :: Product where
  "product_archived = snd (Archive (snd (Activate product_new 110)) 120)"

text \<open>Created, activated at 110, discount_jan (valid between 100 and 200) applied at 150.\<close>

definition product_discounted :: Product where
  "product_discounted = snd (ApplyDiscount (snd (Activate product_new 110)) discount_jan 150)"

definition product_discounted_archived :: Product where
  "product_discounted_archived = snd (Archive product_discounted 160)"

text \<open>Loaded from a row whose status is "active".\<close>

definition product_loaded_active :: Product where
  "product_loaded_active =
     ReconstructProduct ''product-1'' ''Test'' ''Desc'' ''Cat'' (Some (NewMoney 10000)) None
       ProductStatusActive None 100 100"

text \<open>
  Loaded from a row whose discount columns are set except \<open>discount_amount\<close> (a nullable
  column): the discount has a window and no amount.
\<close>

definition discount_no_amount :: Discount where
  "discount_no_amount = \<lparr>ID = ''discount-2'', Amount = None, StartDate = 100, EndDate = 200\<rparr>"

definition product_discount_no_amount :: Product where
  "product_discount_no_amount =
     ReconstructProduct ''product-2'' ''Test'' ''Desc'' ''Cat'' (Some (NewMoney 10000))
       (Some discount_no_amount) ProductStatusActive None 100 100"

definition product_unpriced :: Product where
  "product_unpriced = NewProduct ''product-7'' ''Test'' ''Desc'' ''Cat'' None"

text \<open>No attached discount is valid at \<open>now\<close>: the guard of \<open>Deactivate\<close> lets the call through.\<close>

definition no_valid_discount :: "Product \<Rightarrow> time \<Rightarrow> bool" where
  "no_valid_discount p now = (case discount p of None \<Rightarrow> True | Some cur \<Rightarrow> \<not> IsValidAt cur now)"

text \<open>Add(NewMoney(2^62), NewMoney(2^62)): 2^63 cents.\<close>

definition money_overflow :: Money where
  "money_overflow = Add (NewMoney 4611686018427387904) (NewMoney 4611686018427387904)"

text \<open>
  A database that logs the batches applied to it; a committer that appends the plan's
  mutations as one batch; a committer that always fails.
\<close>

definition committer_log :: "Plan \<Rightarrow> Mutation list list \<Rightarrow> Error option \<times> Mutation list list" where
  "committer_log plan db = (None, db @ [Mutations plan])"

definition committer_down :: "Plan \<Rightarrow> Mutation list list \<Rightarrow> Error option \<times> Mutation list list" where
  "committer_down plan db = (Some (Other ''unavailable''), db)"

text \<open>
  Dependencies in which \<open>json.Marshal\<close> fails on every payload, the repository loads
  \<open>product_loaded_active\<close> and builds its update as the Spanner repository does.
\<close>

definition deps_marshal_fails :: "(Mutation list list) Deps" where
  "deps_marshal_fails =
     \<lparr>repo_Load = (\<lambda>pid db. Inr product_loaded_active),
      repo_UpdateMut = SpannerProductRepository_UpdateMut,
      committer_Apply = committer_log,
      clock_Now = 500,
      json_Marshal = (\<lambda>data. Inl (Other ''json: error calling MarshalJSON'')),
      uuid_New = (\<lambda>k. ''event-id'')\<rparr>"

definition request_rename :: Request where
  "request_rename =
     \<lparr>req_ProductID = ''product-1'', req_Name = Some ''New Name'', req_Description = None,
      req_Category = None\<rparr>"

text \<open>
  Dependencies with a repository stub whose \<open>UpdateMut\<close> returns nil and a committer that
  always fails.
\<close>

definition deps_nothing_to_commit :: "(Mutation list list) Deps" where
  "deps_nothing_to_commit =
     \<lparr>repo_Load = (\<lambda>pid db. Inr product_loaded_active),
      repo_UpdateMut = (\<lambda>product. None),
      committer_Apply = committer_down,
      clock_Now = 500,
      json_Marshal = (\<lambda>data. Inr ''{}''),
      uuid_New = (\<lambda>k. ''event-id'')\<rparr>"

definition request_no_change :: Request where
  "request_no_change =
     \<lparr>req_ProductID = ''product-1'', req_Name = None, req_Description = None,
      req_Category = None\<rparr>"

definition client_down :: "Mutation list \<Rightarrow> Mutation list list \<Rightarrow> Error option \<times> Mutation list list" where
  "client_down muts db = (Some (Other ''unavailable''), db)"

definition row_unknown_status :: m_Product where
  "row_unknown_status =
     \<lparr>m_ProductID = ''product-1'', m_Name = ''Test'', m_Description = ''Desc'', m_Category = ''Cat'',
      m_BasePriceNumerator = 10000, m_BasePriceDenominator = 100, m_DiscountID = None,
      m_DiscountAmount = None, m_DiscountStartDate = None, m_DiscountEndDate = None,
      m_Status = ''ARCHIVED'', m_ArchivedAt = None, m_CreatedAt = 100, m_UpdatedAt = 100\<rparr>"

definition dto_empty_status :: DTO where
  "dto_empty_status =
     \<lparr>dto_ID = ''product-1'', dto_Name = ''Test'', dto_Description = ''Desc'', dto_Category = ''Cat'',
      dto_BasePrice = Some (NewMoney 10000), dto_EffectivePrice = None, dto_DiscountID = None,
      dto_DiscountAmount = None, dto_DiscountStartDate = None, dto_DiscountEndDate = None,
      dto_Status = [], dto_ArchivedAt = None, dto_CreatedAt = 100, dto_UpdatedAt = 100\<rparr>"

definition item_active :: ProductItem where
  "item_active =
     \<lparr>item_ID = ''product-1'', item_Name = ''Test'', item_Description = ''Desc'',
      item_Category = ''Cat'', item_BasePrice = Some (NewMoney 10000), item_EffectivePrice = None,
      item_DiscountID = None, item_DiscountAmount = None, item_DiscountStartDate = None,
      item_DiscountEndDate = None, item_Status = ''active'', item_ArchivedAt = None,
      item_CreatedAt = 100, item_UpdatedAt = 100\<rparr>"

section \<open>Properties\<close>

subsection \<open>Discount validity\<close>

lemma IsValidAt_iff: "IsValidAt d t \<longleftrightarrow> StartDate d < t \<and> t < EndDate d"
  by (simp add: IsValidAt_def After_def Before_def)

lemma IsValidAt_inclusive_iff: "IsValidAt_inclusive d t \<longleftrightarrow> StartDate d \<le> t \<and> t < EndDate d"
  by (auto simp add: IsValidAt_inclusive_def Before_def)

text \<open>
  C1. The claim: \<open>IsValidAt(t)\<close> is true exactly when \<open>StartDate \<le> t < EndDate\<close>, so it is true
  at \<open>StartDate\<close> itself. The method of discount.go uses \<open>now.After(d.StartDate)\<close>: at
  \<open>t = StartDate\<close> the window condition of the claim holds and the method answers false.
\<close>

theorem C1_IsValidAt_rejects_StartDate:
  "\<not> IsValidAt discount_jan (StartDate discount_jan) \<and>
   StartDate discount_jan \<le> StartDate discount_jan \<and>
   StartDate discount_jan < EndDate discount_jan"
  by (simp add: IsValidAt_def After_def Before_def discount_jan_def)

subsection \<open>Archival\<close>

lemma archived_guard:
  assumes "archivedAt p \<noteq> None"
  shows "Activate p t = (Some ErrProductAlreadyArchived, p)"
    and "Deactivate p now t = (Some ErrProductAlreadyArchived, p)"
    and "UpdateDetails p n d c = (Some ErrProductAlreadyArchived, p)"
    and "Archive p now = (Some ErrProductAlreadyArchived, p)"
  using assms by (simp_all add: Activate_def Deactivate_def UpdateDetails_def Archive_def)

text \<open>
  C2. The claim: on an archived product each of activate, deactivate, updateDetails and
  applyDiscount fails with ProductAlreadyArchived. \<open>ApplyDiscount\<close> has no archival guard:
  on a product that was activated and then archived, a discount valid at \<open>now\<close> is
  attached, the call returns nil and a DiscountApplied event is recorded.
\<close>

theorem C2_ApplyDiscount_on_archived:
  "archivedAt product_archived = Some 120 \<and>
   fst (ApplyDiscount product_archived discount_jan 150) = None \<and>
   discount (snd (ApplyDiscount product_archived discount_jan 150)) = Some discount_jan \<and>
   events (snd (ApplyDiscount product_archived discount_jan 150)) =
     events product_archived @ [DiscountAppliedEvent ''product-1'' ''discount-1'' 150]"
  by (simp add: product_archived_def product_new_def NewProduct_def Activate_def Archive_def
      ApplyDiscount_def ProductStatusActive_def IsValidAt_def After_def Before_def discount_jan_def)

subsection \<open>Discounts need an active product\<close>

lemma ApplyDiscount_not_active:
  "status p \<noteq> ProductStatusActive \<Longrightarrow> ApplyDiscount p d now = (Some ErrProductNotActive, p)"
  by (simp add: ApplyDiscount_def)

text \<open>
  C5. A freshly created product (the result of \<open>NewProduct\<close>, whose status is the empty
  string) rejects \<open>ApplyDiscount\<close> with ProductNotActive; the aggregate is returned
  unchanged, so its discount is still nil and its pending-event list still empty.
\<close>

theorem C5_ApplyDiscount_on_new_product:
  "ApplyDiscount (NewProduct i n d c bp) disc now = (Some ErrProductNotActive, NewProduct i n d c bp) \<and>
   discount (NewProduct i n d c bp) = None \<and>
   events (NewProduct i n d c bp) = []"
  by (simp add: ApplyDiscount_def NewProduct_def ProductStatusActive_def)

subsection \<open>Effective price\<close>

lemma NewMoney_100: "NewMoney 100 = 1"
  by (simp add: NewMoney_def Fract_of_int_quotient)

lemmas product_discounted_simps =
  product_discounted_def product_new_def NewProduct_def Activate_def ApplyDiscount_def
  ProductStatusActive_def IsValidAt_def After_def Before_def discount_jan_def

text \<open>
  C4, as stated: with a discount attached and valid at \<open>now\<close> (\<open>start \<le> now < end\<close>) the
  result is \<open>basePrice * (1 - discount.amount)\<close>. Two inputs where the window contains
  \<open>now\<close> and the base price comes back unchanged: a discount that carries no amount
  (the calculator's own guard \<open>discount.Amount == nil\<close>), and \<open>now\<close> equal to the start
  instant, which \<open>IsValidAt\<close> of discount.go excludes (the defect of C1).
\<close>

theorem C4_CalculateEffectivePrice_counterexample:
  "basePrice product_discount_no_amount = Some (Fract 10000 100) \<and>
   discount product_discount_no_amount = Some discount_no_amount \<and>
   Amount discount_no_amount = None \<and>
   StartDate discount_no_amount \<le> 150 \<and> 150 < EndDate discount_no_amount \<and>
   CalculateEffectivePrice product_discount_no_amount 150 = Some (Fract 10000 100) \<and>
   basePrice product_discounted = Some (Fract 10000 100) \<and>
   discount product_discounted = Some discount_jan \<and>
   Amount discount_jan = Some (Fract 10 100) \<and>
   StartDate discount_jan \<le> 100 \<and> 100 < EndDate discount_jan \<and>
   CalculateEffectivePrice product_discounted 100 = Some (Fract 10000 100) \<and>
   Fract 10000 100 \<noteq> Fract 10000 100 * (1 - Fract 10 100)"
  by (simp add: CalculateEffectivePrice_def product_discount_no_amount_def discount_no_amount_def
      ReconstructProduct_def product_discounted_simps NewMoney_def Fract_of_int_quotient)

text \<open>
  C4, amended: \<open>CalculateEffectivePrice\<close> gives no result when there is no base price; it
  gives the base price unchanged when there is no discount, when the discount carries no
  amount, and when \<open>now\<close> is outside the window (\<open>now < start\<close> or \<open>end \<le> now\<close>); when the
  discount has amount \<open>a\<close> and \<open>start < now < end\<close> it gives exactly \<open>basePrice * (1 - a)\<close>
  in rational arithmetic. Nothing is said about \<open>now = start\<close>. Scenario A: base price
  10000/100 and a 10/100 discount whose window strictly contains 150 give exactly 9000/100
  at 150.
\<close>

theorem C4_CalculateEffectivePrice:
  "(basePrice p = None \<longrightarrow> CalculateEffectivePrice p now = None) \<and>
   (basePrice p = Some b \<and> discount p = None \<longrightarrow> CalculateEffectivePrice p now = Some b) \<and>
   (basePrice p = Some b \<and> discount p = Some d \<and> Amount d = None
      \<longrightarrow> CalculateEffectivePrice p now = Some b) \<and>
   (basePrice p = Some b \<and> discount p = Some d \<and> (now < StartDate d \<or> EndDate d \<le> now)
      \<longrightarrow> CalculateEffectivePrice p now = Some b) \<and>
   (basePrice p = Some b \<and> discount p = Some d \<and> Amount d = Some a \<and>
    StartDate d < now \<and> now < EndDate d
      \<longrightarrow> CalculateEffectivePrice p now = Some (b * (1 - a))) \<and>
   basePrice product_discounted = Some (Fract 10000 100) \<and>
   (\<exists>d. discount product_discounted = Some d \<and> Amount d = Some (Fract 10 100) \<and>
        StartDate d < 150 \<and> 150 < EndDate d) \<and>
   CalculateEffectivePrice product_discounted 150 = Some (Fract 9000 100)"
  by (auto simp add: CalculateEffectivePrice_def NewMoney_100 Subtract_def Multiply_def
      product_discounted_simps NewMoney_def Fract_of_int_quotient
      split: option.splits)

theorem C4_CalculateEffectivePrice_witness:
  "CalculateEffectivePrice product_unpriced 150 = None \<and>
   CalculateEffectivePrice product_new 150 = Some (Fract 10000 100) \<and>
   CalculateEffectivePrice product_discount_no_amount 150 = Some (Fract 10000 100) \<and>
   CalculateEffectivePrice product_discounted 50 = Some (Fract 10000 100) \<and>
   CalculateEffectivePrice product_discounted 200 = Some (Fract 10000 100) \<and>
   CalculateEffectivePrice product_discounted 150 = Some (Fract 10000 100 * (1 - Fract 10 100))"
proof -
  have b0: "basePrice product_unpriced = None"
    by (simp add: product_unpriced_def NewProduct_def)
  have b1: "basePrice product_new = Some (Fract 10000 100) \<and> discount product_new = None"
    by (simp add: product_new_def NewProduct_def NewMoney_def)
  have b2: "basePrice product_discount_no_amount = Some (Fract 10000 100) \<and>
            discount product_discount_no_amount = Some discount_no_amount \<and>
            Amount discount_no_amount = None"
    by (simp add: product_discount_no_amount_def discount_no_amount_def ReconstructProduct_def
        NewMoney_def)
  have b3: "basePrice product_discounted = Some (Fract 10000 100) \<and>
            discount product_discounted = Some discount_jan"
    by (simp add: product_discounted_simps NewMoney_def)
  have w: "50 < StartDate discount_jan" "EndDate discount_jan \<le> 200"
    "StartDate discount_jan < 150" "150 < EndDate discount_jan"
    "Amount discount_jan = Some (Fract 10 100)"
    by (simp_all add: discount_jan_def)
  from b0 C4_CalculateEffectivePrice [of product_unpriced 150]
  have r0: "CalculateEffectivePrice product_unpriced 150 = None"
    by blast
  from b1 C4_CalculateEffectivePrice [of product_new 150 "Fract 10000 100"]
  have r1: "CalculateEffectivePrice product_new 150 = Some (Fract 10000 100)"
    by blast
  from b2 C4_CalculateEffectivePrice
    [of product_discount_no_amount 150 "Fract 10000 100" discount_no_amount]
  have r2: "CalculateEffectivePrice product_discount_no_amount 150 = Some (Fract 10000 100)"
    by blast
  from b3 w(1) C4_CalculateEffectivePrice [of product_discounted 50 "Fract 10000 100" discount_jan]
  have r3: "CalculateEffectivePrice product_discounted 50 = Some (Fract 10000 100)"
    by blast
  from b3 w(2) C4_CalculateEffectivePrice [of product_discounted 200 "Fract 10000 100" discount_jan]
  have r4: "CalculateEffectivePrice product_discounted 200 = Some (Fract 10000 100)"
    by blast
  from b3 w(3,4,5) C4_CalculateEffectivePrice
    [of product_discounted 150 "Fract 10000 100" discount_jan "Fract 10 100"]
  have r5: "CalculateEffectivePrice product_discounted 150 =
              Some (Fract 10000 100 * (1 - Fract 10 100))"
    by blast
  from r0 r1 r2 r3 r4 r5 show ?thesis
    by blast
qed

subsection \<open>Deactivation and the attached discount\<close>

text \<open>
  C6, as stated: every active product with a currently valid discount is refused by
  \<open>Deactivate\<close> with ProductHasActiveDiscount. A product that is active, carries a
  discount whose window contains \<open>now\<close>, and has been archived is refused with
  ProductAlreadyArchived instead: the archival guard comes first.
\<close>

theorem C6_Deactivate_archived_counterexample:
  "status product_discounted_archived = ProductStatusActive \<and>
   discount product_discounted_archived = Some discount_jan \<and>
   StartDate discount_jan \<le> 170 \<and> 170 < EndDate discount_jan \<and>
   IsValidAt discount_jan 170 \<and>
   fst (Deactivate product_discounted_archived 170 170) = Some ErrProductAlreadyArchived \<and>
   fst (Deactivate product_discounted_archived 170 170) \<noteq> Some ErrProductHasActiveDiscount"
  by (simp add: product_discounted_archived_def product_discounted_simps Archive_def Deactivate_def)

text \<open>
  C6, amended: for every active product that is not archived and carries a discount with
  \<open>start < now < end\<close>, \<open>Deactivate\<close> at \<open>now\<close> fails with ProductHasActiveDiscount and
  leaves the aggregate (so its status, Active) unchanged; \<open>RemoveDiscount\<close> then succeeds
  and sets the discount to nil, and a following \<open>Deactivate\<close>, at any instant, succeeds
  with status Inactive. Nothing is said about \<open>now = start\<close>, the instant that \<open>IsValidAt\<close>
  of discount.go excludes (the defect of C1).
\<close>

theorem C6_Deactivate_blocked_by_discount:
  assumes "archivedAt p = None" and "status p = ProductStatusActive"
    and "discount p = Some d" and "StartDate d < now" and "now < EndDate d"
  shows "Deactivate p now t1 = (Some ErrProductHasActiveDiscount, p) \<and>
         status (snd (Deactivate p now t1)) = ProductStatusActive \<and>
         fst (RemoveDiscount p t2) = None \<and>
         discount (snd (RemoveDiscount p t2)) = None \<and>
         fst (Deactivate (snd (RemoveDiscount p t2)) now' t3) = None \<and>
         status (snd (Deactivate (snd (RemoveDiscount p t2)) now' t3)) = ProductStatusInactive"
  using assms
  by (simp add: Deactivate_def RemoveDiscount_def ProductStatusActive_def ProductStatusInactive_def
      IsValidAt_def After_def Before_def)

theorem C6_Deactivate_blocked_by_discount_witness:
  "Deactivate product_discounted 170 171 = (Some ErrProductHasActiveDiscount, product_discounted) \<and>
   status (snd (Deactivate product_discounted 170 171)) = ProductStatusActive \<and>
   fst (RemoveDiscount product_discounted 172) = None \<and>
   discount (snd (RemoveDiscount product_discounted 172)) = None \<and>
   fst (Deactivate (snd (RemoveDiscount product_discounted 172)) 173 174) = None \<and>
   status (snd (Deactivate (snd (RemoveDiscount product_discounted 172)) 173 174)) =
     ProductStatusInactive"
proof -
  have a: "archivedAt product_discounted = None"
    and s: "status product_discounted = ProductStatusActive"
    and d: "discount product_discounted = Some discount_jan"
    by (simp_all add: product_discounted_simps)
  have v: "StartDate discount_jan < 170" and w: "170 < EndDate discount_jan"
    by (simp_all add: discount_jan_def)
  show ?thesis
    by (rule C6_Deactivate_blocked_by_discount [OF a s d v w])
qed

subsection \<open>Idempotent status changes\<close>

text \<open>
  C7, as stated: on every non-archived product two calls of \<open>Activate\<close> in a row append
  exactly one ProductActivated event. On a product that is already active (here: loaded
  from a row with status "active") both calls are no-ops and no event is appended.
\<close>

theorem C7_Activate_twice_counterexample:
  "archivedAt product_loaded_active = None \<and>
   events product_loaded_active = [] \<and>
   events (snd (Activate (snd (Activate product_loaded_active 1)) 2)) = []"
  by (simp add: product_loaded_active_def ReconstructProduct_def Activate_def)

text \<open>
  C7, amended: on a non-archived product, two calls of \<open>Activate\<close> in a row append exactly
  one ProductActivated event when the product was not already active and none when it was;
  both calls succeed and the second one changes nothing (no event, nothing marked dirty).
  Likewise two calls of \<open>Deactivate\<close>, with no attached discount valid at either call,
  append exactly one ProductDeactivated event when the product was not already inactive
  and none when it was, and the second call changes nothing.
\<close>

theorem C7_status_change_idempotent:
  assumes "archivedAt p = None"
  shows "(status p \<noteq> ProductStatusActive \<longrightarrow>
            events (snd (Activate (snd (Activate p t1)) t2)) =
              events p @ [ProductActivatedEvent (id_f p) t1]) \<and>
         (status p = ProductStatusActive \<longrightarrow>
            events (snd (Activate (snd (Activate p t1)) t2)) = events p) \<and>
         fst (Activate p t1) = None \<and>
         Activate (snd (Activate p t1)) t2 = (None, snd (Activate p t1)) \<and>
         (no_valid_discount p n1 \<and> no_valid_discount p n2 \<longrightarrow>
            (status p \<noteq> ProductStatusInactive \<longrightarrow>
               events (snd (Deactivate (snd (Deactivate p n1 t1)) n2 t2)) =
                 events p @ [ProductDeactivatedEvent (id_f p) t1]) \<and>
            (status p = ProductStatusInactive \<longrightarrow>
               events (snd (Deactivate (snd (Deactivate p n1 t1)) n2 t2)) = events p) \<and>
            fst (Deactivate p n1 t1) = None \<and>
            Deactivate (snd (Deactivate p n1 t1)) n2 t2 = (None, snd (Deactivate p n1 t1)))"
  using assms
  by (auto simp add: Activate_def Deactivate_def no_valid_discount_def split: option.splits)

theorem C7_status_change_idempotent_witness:
  "events (snd (Activate (snd (Activate product_new 1)) 2)) = [ProductActivatedEvent ''product-1'' 1] \<and>
   Activate (snd (Activate product_new 1)) 2 = (None, snd (Activate product_new 1)) \<and>
   events (snd (Deactivate (snd (Deactivate product_loaded_active 3 4)) 5 6)) =
     [ProductDeactivatedEvent ''product-1'' 4] \<and>
   Deactivate (snd (Deactivate product_loaded_active 3 4)) 5 6 =
     (None, snd (Deactivate product_loaded_active 3 4))"
proof -
  have a1: "archivedAt product_new = None"
    by (simp add: product_new_def NewProduct_def)
  have s1: "status product_new \<noteq> ProductStatusActive"
    "events product_new = []" "id_f product_new = ''product-1''"
    by (simp_all add: product_new_def NewProduct_def ProductStatusActive_def)
  have a2: "archivedAt product_loaded_active = None"
    by (simp add: product_loaded_active_def ReconstructProduct_def)
  have s2: "status product_loaded_active \<noteq> ProductStatusInactive"
    "events product_loaded_active = []" "id_f product_loaded_active = ''product-1''"
    "no_valid_discount product_loaded_active 3" "no_valid_discount product_loaded_active 5"
    by (simp_all add: product_loaded_active_def ReconstructProduct_def ProductStatusActive_def
        ProductStatusInactive_def no_valid_discount_def)
  from s1(1) C7_status_change_idempotent [OF a1, of 1 2 0 0]
  have e1: "events (snd (Activate (snd (Activate product_new 1)) 2)) =
          events product_new @ [ProductActivatedEvent (id_f product_new) 1]"
    and n1: "Activate (snd (Activate product_new 1)) 2 = (None, snd (Activate product_new 1))"
    by blast+
  from e1 have "events (snd (Activate (snd (Activate product_new 1)) 2)) =
              [ProductActivatedEvent ''product-1'' 1]"
    by (simp only: s1 append_Nil)
  with n1 have r1: "events (snd (Activate (snd (Activate product_new 1)) 2)) =
              [ProductActivatedEvent ''product-1'' 1] \<and>
            Activate (snd (Activate product_new 1)) 2 = (None, snd (Activate product_new 1))"
    by blast
  from s2(1,4,5) C7_status_change_idempotent [OF a2, of 4 6 3 5]
  have e2: "events (snd (Deactivate (snd (Deactivate product_loaded_active 3 4)) 5 6)) =
          events product_loaded_active @ [ProductDeactivatedEvent (id_f product_loaded_active) 4]"
    and n2: "Deactivate (snd (Deactivate product_loaded_active 3 4)) 5 6 =
          (None, snd (Deactivate product_loaded_active 3 4))"
    by blast+
  from e2 have "events (snd (Deactivate (snd (Deactivate product_loaded_active 3 4)) 5 6)) =
              [ProductDeactivatedEvent ''product-1'' 4]"
    by (simp only: s2 append_Nil)
  with n2 have r2: "events (snd (Deactivate (snd (Deactivate product_loaded_active 3 4)) 5 6)) =
              [ProductDeactivatedEvent ''product-1'' 4] \<and>
            Deactivate (snd (Deactivate product_loaded_active 3 4)) 5 6 =
              (None, snd (Deactivate product_loaded_active 3 4))"
    by blast
  from r1 r2 show ?thesis
    by blast
qed

subsection \<open>Money\<close>

lemma quotient_of_denom_1:
  assumes "snd (quotient_of r) = 1"
  shows "r = of_int (fst (quotient_of r))"
proof -
  obtain a b where ab: "quotient_of r = (a, b)"
    by (cases "quotient_of r")
  with assms have "b = 1"
    by simp
  with ab have "r = Fract a 1"
    using quotient_of_div [OF ab] by (simp add: Fract_of_int_quotient)
  with ab show ?thesis
    by (simp add: Fract_of_int_quotient)
qed

lemma sint_Int64: "IsInt64 n \<Longrightarrow> sint (Int64 n) = n"
  unfolding IsInt64_def Int64_def
  by (simp add: sint_sbintrunc' signed_take_bit_int_eq_self)

lemma money_overflow_cents: "money_overflow * Fract 100 1 = 9223372036854775808"
  by (simp add: money_overflow_def Add_def NewMoney_def Fract_of_int_quotient)

text \<open>
  C8, as stated: converting any Money whose scaled denominator is 1 is exact. The sum of
  two \<open>NewMoney(2^62)\<close> is 2^63 cents: the scaled denominator is 1, the exact branch is
  taken, and \<open>Num().Int64()\<close> keeps the low 64 bits, so the amount on the wire is \<open>-2^63\<close>
  cents; reading it back does not give the Money that was converted.
\<close>

theorem C8_conversion_overflow_counterexample:
  "Denom (money_overflow * Fract 100 1) = 1 \<and>
   Num (money_overflow * Fract 100 1) = 9223372036854775808 \<and>
   BigRatToProtoMoney (\<lambda>r. 0) (Some money_overflow) = Some (- 9223372036854775808) \<and>
   sint (- 9223372036854775808 :: int64) = - 9223372036854775808 \<and>
   NewMoney (- 9223372036854775808) \<noteq> money_overflow"
  apply (simp add: BigRatToProtoMoney_def money_overflow_cents Denom_def Num_def IsInt64_def
      Int64_def Let_def)
  apply (simp add: money_overflow_def Add_def NewMoney_def Fract_of_int_quotient)
  done

text \<open>
  C8, amended: \<open>Add\<close> is commutative; \<open>NewMoneyFromFraction(1, 1)\<close> is 1 and multiplying
  by it changes nothing; converting a Money whose denominator after the cents scaling is 1
  and whose scaled numerator fits a signed 64-bit integer is exact, whatever the rounding
  of the other branch does: the amount is the scaled value, and \<open>NewMoney\<close> of it is the
  Money converted. Both mappers (\<open>BigRatToProtoMoney\<close>, \<open>DomainMoneyToProto\<close>) agree.
\<close>

theorem C8_money_laws:
  "Add a b = Add b a \<and>
   NewMoneyFromFraction 1 1 = Inr 1 \<and>
   Multiply a 1 = a \<and>
   (Denom (m * Fract 100 1) = 1 \<and> IsInt64 (Num (m * Fract 100 1)) \<longrightarrow>
      (\<exists>amount. BigRatToProtoMoney round_f64 (Some m) = Some amount \<and>
                DomainMoneyToProto round_f64 (Some m) = Some amount \<and>
                rat_of_int (sint amount) = m * 100 \<and> NewMoney amount = m))"
proof -
  have 1: "Add a b = Add b a"
    by (simp add: Add_def)
  have 2: "NewMoneyFromFraction 1 1 = Inr 1"
    by (simp add: NewMoneyFromFraction_def NewRat_def One_rat_def)
  have 3: "Multiply a 1 = a"
    by (simp add: Multiply_def)
  have 4: "\<exists>amount. BigRatToProtoMoney round_f64 (Some m) = Some amount \<and>
                DomainMoneyToProto round_f64 (Some m) = Some amount \<and>
                rat_of_int (sint amount) = m * 100 \<and> NewMoney amount = m"
    if d: "Denom (m * Fract 100 1) = 1" and i: "IsInt64 (Num (m * Fract 100 1))"
  proof -
    let ?c = "m * Fract 100 1"
    have c: "?c = of_int (Num ?c)"
      using d quotient_of_denom_1 [of ?c] by (simp add: Denom_def Num_def)
    have s: "sint (Int64 (Num ?c)) = Num ?c"
      using i by (rule sint_Int64)
    have i1: "IsInt64 1"
      by (simp add: IsInt64_def)
    have w1: "Int64 1 = 1"
      by (simp add: Int64_def)
    have h: "Fract 100 1 = (100::rat)"
      by (simp add: Fract_of_int_quotient)
    have e: "rat_of_int (Num ?c) = m * 100"
      using c by (simp only: h)
    have b: "BigRatToProtoMoney round_f64 (Some m) = Some (Int64 (Num ?c))"
      by (simp add: BigRatToProtoMoney_def Let_def d i1 w1)
    have b': "DomainMoneyToProto round_f64 (Some m) = Some (Int64 (Num ?c))"
      by (simp add: DomainMoneyToProto_def Let_def d i1 w1)
    have "NewMoney (Int64 (Num ?c)) = Fract (Num ?c) 100"
      by (simp only: NewMoney_def s)
    also have "\<dots> = rat_of_int (Num ?c) / 100"
      by (simp add: Fract_of_int_quotient)
    also have "\<dots> = m"
      using e by simp
    finally have n: "NewMoney (Int64 (Num ?c)) = m" .
    have r: "rat_of_int (sint (Int64 (Num ?c))) = m * 100"
      by (simp only: s e)
    from b b' r n show ?thesis
      by blast
  qed
  from 1 2 3 4 show ?thesis
    by blast
qed

theorem C8_money_laws_witness:
  "\<exists>amount. BigRatToProtoMoney (\<lambda>r. 0) (Some (Fract 9000 100)) = Some amount \<and>
            DomainMoneyToProto (\<lambda>r. 0) (Some (Fract 9000 100)) = Some amount \<and>
            rat_of_int (sint amount) = Fract 9000 100 * 100 \<and> NewMoney amount = Fract 9000 100"
proof -
  have c: "Fract 9000 100 * Fract 100 1 = (9000::rat)"
    by (simp add: Fract_of_int_quotient)
  have "Denom (9000::rat) = 1 \<and> IsInt64 (Num (9000::rat))"
    by (simp add: Denom_def Num_def IsInt64_def)
  then have d: "Denom (Fract 9000 100 * Fract 100 1) = 1 \<and>
                IsInt64 (Num (Fract 9000 100 * Fract 100 1))"
    by (simp only: c)
  from d C8_money_laws [of 0 0 "Fract 9000 100" "\<lambda>r. 0"] show ?thesis
    by blast
qed

subsection \<open>Status on load\<close>

text \<open>
  C10. A product reconstructed from persisted data has status "active" or "inactive":
  the stored string is kept when it is "active", and anything else (the empty string
  included) becomes "inactive". This holds for the repository's \<open>modelToDomain\<close> (which
  always returns a product) and for the products rebuilt inside both read-side queries.
\<close>

theorem C10_status_normalised_on_load:
  "(\<exists>p. modelToDomain model = Inr p \<and>
        (status p = ProductStatusActive \<or> status p = ProductStatusInactive) \<and>
        status p = (if m_Status model = ProductStatusActive then ProductStatusActive
                    else ProductStatusInactive)) \<and>
   (status (get_product_reconstruct dto) = ProductStatusActive \<or>
    status (get_product_reconstruct dto) = ProductStatusInactive) \<and>
   status (get_product_reconstruct dto) =
     (if dto_Status dto = ProductStatusActive then ProductStatusActive else ProductStatusInactive) \<and>
   (status (list_products_reconstruct item) = ProductStatusActive \<or>
    status (list_products_reconstruct item) = ProductStatusInactive) \<and>
   status (list_products_reconstruct item) =
     (if item_Status item = ProductStatusActive then ProductStatusActive else ProductStatusInactive)"
  by (auto simp add: modelToDomain_def get_product_reconstruct_def list_products_reconstruct_def
      ReconstructProduct_def NewMoneyFromFraction_def NewRat_def Let_def
      split: option.splits sum.splits)

theorem C10_status_normalised_on_load_witness:
  "(\<exists>p. modelToDomain row_unknown_status = Inr p \<and> status p = ''inactive'') \<and>
   status (get_product_reconstruct dto_empty_status) = ''inactive'' \<and>
   status (list_products_reconstruct item_active) = ''active''"
proof -
  have s: "m_Status row_unknown_status \<noteq> ProductStatusActive"
    "dto_Status dto_empty_status \<noteq> ProductStatusActive"
    "item_Status item_active = ProductStatusActive"
    by (simp_all add: row_unknown_status_def dto_empty_status_def item_active_def
        ProductStatusActive_def)
  from s C10_status_normalised_on_load [of row_unknown_status dto_empty_status item_active]
  show ?thesis
    by (auto simp add: ProductStatusActive_def ProductStatusInactive_def)
qed

subsection \<open>Event serialization failures\<close>

lemma activate_collect_fails:
  assumes "e \<in> set evs" and "json_Marshal deps (EventData e) = Inl err"
  shows "\<exists>err'. activate_collect deps now k evs plan = Inl err'"
  using assms
proof (induction evs arbitrary: k plan)
  case Nil
  then show ?case
    by simp
next
  case (Cons x xs)
  show ?case
  proof (cases "json_Marshal deps (EventData x)")
    case (Inl a)
    then show ?thesis
      by (simp add: activate_eventToOutboxMutation_def)
  next
    case (Inr b)
    with Cons.prems have "e \<in> set xs"
      by auto
    from Cons.IH [OF this Cons.prems(2)] Inr show ?thesis
      by (simp add: activate_eventToOutboxMutation_def)
  qed
qed

text \<open>
  activate_product does what the claim asks: when any pending event cannot be serialized,
  \<open>Execute\<close> returns an error and the committer is never called (the database is the one
  it started from, whatever the committer would do).
\<close>

lemma activate_product_marshal_failure:
  assumes "repo_Load deps pid db = Inr p"
    and "Activate p (clock_Now deps) = (None, p')"
    and "e \<in> set (events p')" and "json_Marshal deps (EventData e) = Inl err"
  shows "\<exists>err'. activate_product_Execute deps pid db = (Inl err', db)"
proof -
  from activate_collect_fails [OF assms(3,4)]
  obtain err' where "activate_collect deps (clock_Now deps) 0 (events p')
       (Add_plan NewPlan (repo_UpdateMut deps p')) = Inl err'"
    by blast
  with assms(1,2) show ?thesis
    by (simp add: activate_product_Execute_def Let_def)
qed

text \<open>
  update_product does not: when every pending event fails to serialize and the committer
  accepts the batch, \<open>Execute\<close> succeeds after applying a plan that holds the aggregate
  update alone.
\<close>

lemma update_collect_all_fail:
  assumes "\<forall>e \<in> set evs. \<exists>err. json_Marshal deps (EventData e) = Inl err"
  shows "update_collect deps now k evs plan = plan"
  using assms
  by (induction evs arbitrary: k plan)
     (auto simp add: update_eventToOutboxMutation_def Add_plan_def)

lemma update_product_marshal_swallowed:
  assumes "repo_Load deps (req_ProductID req) db = Inr p"
    and "updateDetails p (case req_Name req of Some v \<Rightarrow> v | None \<Rightarrow> name p)
           (case req_Description req of Some v \<Rightarrow> v | None \<Rightarrow> description p)
           (case req_Category req of Some v \<Rightarrow> v | None \<Rightarrow> category p) (clock_Now deps) =
         (None, p')"
    and "\<forall>e \<in> set (events p'). \<exists>err. json_Marshal deps (EventData e) = Inl err"
    and "repo_UpdateMut deps p' = Some m"
    and "committer_Apply deps \<lparr>mutations = [m]\<rparr> db = (None, db')"
  shows "update_product_Execute deps updateDetails req db = (Inr (req_ProductID req), db')"
  using assms(1,2,4,5)
  by (simp add: update_product_Execute_def Let_def update_collect_all_fail [OF assms(3)]
      Add_plan_def NewPlan_def Mutations_def)

text \<open>
  C3. The claim: if serializing any pending event fails, the use case fails and nothing is
  committed, in particular for UpdateProduct. In update_product, \<open>eventToOutboxMutation\<close>
  returns nil on a marshalling error and \<open>Execute\<close> skips a nil mutation: renaming the
  loaded product leaves one pending ProductUpdated event, its serialization fails, and
  \<open>Execute\<close> still returns the product id after committing a batch that holds the aggregate
  update alone.
\<close>

theorem C3_update_product_swallows_marshal_error:
  "fst (UpdateDetails_at product_loaded_active ''New Name'' ''Desc'' ''Cat'' 500) = None \<and>
   events (snd (UpdateDetails_at product_loaded_active ''New Name'' ''Desc'' ''Cat'' 500)) =
     [ProductUpdatedEvent ''product-1'' 500 [''name'']] \<and>
   json_Marshal deps_marshal_fails (EventData (ProductUpdatedEvent ''product-1'' 500 [''name''])) =
     Inl (Other ''json: error calling MarshalJSON'') \<and>
   update_product_Execute deps_marshal_fails UpdateDetails_at request_rename [] =
     (Inr ''product-1'',
      [[ProductUpdate [''product_id'', ''name'', ''updated_at'']
          (domainToModel
             (snd (UpdateDetails_at product_loaded_active ''New Name'' ''Desc'' ''Cat'' 500)))]])"
  by (simp add: update_product_Execute_def deps_marshal_fails_def request_rename_def
      product_loaded_active_def ReconstructProduct_def UpdateDetails_at_def UpdateDetails_def
      Let_def FieldName_def FieldDescription_def FieldCategory_def MarkDirty_def
      update_eventToOutboxMutation_def Add_plan_def NewPlan_def Mutations_def
      SpannerProductRepository_UpdateMut_def Dirty_def committer_log_def
      FieldDiscount_def FieldStatus_def FieldArchivedAt_def)

subsection \<open>Empty plans\<close>

text \<open>
  C9. Applying a plan without mutations never fails. \<open>SpannerCommitter.Apply\<close> returns nil
  for a nil plan and for a plan with no mutations without calling the client, whatever the
  client would answer. In activate_product and update_product, when the plan built for the
  execution has no mutations, \<open>Execute\<close> returns the product id without calling the
  committer: the database is the one it started from, whatever the committer would do.
  (create_product calls the committer unconditionally, after adding the product insert.)
\<close>

theorem C9_empty_plan_never_fails:
  "SpannerCommitter_Apply client None db = (None, db) \<and>
   (Mutations plan = [] \<longrightarrow> SpannerCommitter_Apply client (Some plan) db = (None, db)) \<and>
   SpannerCommitter_Apply client (Some NewPlan) db = (None, db) \<and>
   (repo_Load deps pid db' = Inr p \<and> Activate p (clock_Now deps) = (None, p') \<and>
    activate_collect deps (clock_Now deps) 0 (events p')
      (Add_plan NewPlan (repo_UpdateMut deps p')) = Inr plan' \<and>
    Mutations plan' = []
      \<longrightarrow> activate_product_Execute deps pid db' = (Inr pid, db')) \<and>
   (repo_Load deps (req_ProductID req) db' = Inr q \<and>
    updateDetails q (case req_Name req of Some v \<Rightarrow> v | None \<Rightarrow> name q)
       (case req_Description req of Some v \<Rightarrow> v | None \<Rightarrow> description q)
       (case req_Category req of Some v \<Rightarrow> v | None \<Rightarrow> category q) (clock_Now deps) = (None, q') \<and>
    Mutations (update_collect deps (clock_Now deps) 0 (events q')
                 (Add_plan NewPlan (repo_UpdateMut deps q'))) = []
      \<longrightarrow> update_product_Execute deps updateDetails req db' = (Inr (req_ProductID req), db'))"
  by (simp add: SpannerCommitter_Apply_def NewPlan_def Mutations_def
      activate_product_Execute_def update_product_Execute_def Let_def)

theorem C9_empty_plan_never_fails_witness:
  "SpannerCommitter_Apply client_down (Some NewPlan) [] = (None, []) \<and>
   activate_product_Execute deps_nothing_to_commit ''product-1'' [] = (Inr ''product-1'', []) \<and>
   update_product_Execute deps_nothing_to_commit UpdateDetails_at request_no_change [] =
     (Inr ''product-1'', [])"
proof -
  let ?deps = deps_nothing_to_commit
  have h1: "Mutations NewPlan = []"
    by (simp add: Mutations_def NewPlan_def)
  have h2: "repo_Load ?deps ''product-1'' [] = Inr product_loaded_active \<and>
            Activate product_loaded_active (clock_Now ?deps) = (None, product_loaded_active) \<and>
            activate_collect ?deps (clock_Now ?deps) 0 (events product_loaded_active)
              (Add_plan NewPlan (repo_UpdateMut ?deps product_loaded_active)) = Inr NewPlan \<and>
            Mutations NewPlan = []"
    by (simp add: deps_nothing_to_commit_def product_loaded_active_def ReconstructProduct_def
        Activate_def Add_plan_def Mutations_def NewPlan_def)
  have h3: "repo_Load ?deps (req_ProductID request_no_change) [] = Inr product_loaded_active \<and>
            UpdateDetails_at product_loaded_active
              (case req_Name request_no_change of Some v \<Rightarrow> v | None \<Rightarrow> name product_loaded_active)
              (case req_Description request_no_change of Some v \<Rightarrow> v
               | None \<Rightarrow> description product_loaded_active)
              (case req_Category request_no_change of Some v \<Rightarrow> v
               | None \<Rightarrow> category product_loaded_active)
              (clock_Now ?deps) = (None, product_loaded_active) \<and>
            Mutations (update_collect ?deps (clock_Now ?deps) 0 (events product_loaded_active)
                         (Add_plan NewPlan (repo_UpdateMut ?deps product_loaded_active))) = []"
    by (simp add: deps_nothing_to_commit_def request_no_change_def product_loaded_active_def
        ReconstructProduct_def UpdateDetails_at_def UpdateDetails_def Let_def Add_plan_def
        Mutations_def NewPlan_def)
  have r: "req_ProductID request_no_change = ''product-1''"
    by (simp add: request_no_change_def)
  from h1 h2 h3
    C9_empty_plan_never_fails [where client = client_down and db = "[]" and plan = NewPlan
      and deps = ?deps and pid = "''product-1''" and db' = "[]" and p = product_loaded_active
      and p' = product_loaded_active and plan' = NewPlan and req = request_no_change
      and q = product_loaded_active and updateDetails = UpdateDetails_at
      and q' = product_loaded_active]
  have "SpannerCommitter_Apply client_down (Some NewPlan) [] = (None, []) \<and>
        activate_product_Execute ?deps ''product-1'' [] = (Inr ''product-1'', []) \<and>
        update_product_Execute ?deps UpdateDetails_at request_no_change [] =
          (Inr (req_ProductID request_no_change), [])"
    by blast
  then show ?thesis
    by (simp only: r)
qed

end
